theory Spec2Isabelle
  imports Main "HOL-Library.Sublist"
begin

section \<open>The script \<open>app.py\<close> as a page transformer\<close>

text \<open>
  The script is twenty lines of Streamlit: it writes a subheader, writes a text input bound
  to the key \<open>linkid\<close> and reads its value into \<open>video_id\<close>, and, when that value is
  truthy, formats an embed URL and hands an HTML fragment holding it to
  \<open>components.html\<close> with \<open>height=400\<close>.

  A Python \<open>str\<close> is modelled as the list of the bytes of its UTF-8 encoding: an empty
  \<open>str\<close> is the empty list and no other, and concatenation and f-string interpolation
  are list concatenation under the encoding, which is all the script does with strings.
\<close>

abbreviation dq :: char where
  "dq \<equiv> CHR 0x22"

abbreviation nl :: char where
  "nl \<equiv> CHR 0x0A"

text \<open>
  What the script can put on the display surface: the three Streamlit calls it makes, each
  with the arguments of the call.
\<close>

datatype element =
    Subheader string
  | Text_input string string
  | Html string nat

text \<open>
  The page a script run works on: the values the UI layer holds for its keyed widgets
  (Streamlit's session state) and the elements written to the display surface so far.
\<close>

record page =
  session :: "string \<rightharpoonup> string"
  surface :: "element list"

text \<open>
  \<open>st.text_input(label, key=k)\<close> returns what the UI layer holds under \<open>k\<close>, and the
  default \<open>value=""\<close> for a field nobody has touched. A keyed widget is also registered
  in the session state: after the call the session holds the returned value under \<open>k\<close>,
  also when it held nothing there before.
\<close>

definition field_value :: "page \<Rightarrow> string \<Rightarrow> string" where
  "field_value p key = (case session p key of None \<Rightarrow> [] | Some v \<Rightarrow> v)"

definition subheader :: "string \<Rightarrow> page \<Rightarrow> page" where
  "subheader body p = p\<lparr>surface := surface p @ [Subheader body]\<rparr>"

definition text_input :: "string \<Rightarrow> string \<Rightarrow> page \<Rightarrow> string \<times> page" where
  "text_input label key p =
     (field_value p key,
      p\<lparr>session := (session p)(key \<mapsto> field_value p key),
        surface := surface p @ [Text_input label key]\<rparr>)"

definition html :: "string \<Rightarrow> nat \<Rightarrow> page \<Rightarrow> page" where
  "html body height p = p\<lparr>surface := surface p @ [Html body height]\<rparr>"

text \<open>Line 4: the subheader's text starts with U+1F3A5, four bytes in UTF-8.\<close>

definition subheader_text :: string where
  "subheader_text = [CHR 0xF0, CHR 0x9F, CHR 0x8E, CHR 0xA5] @ '' Enter YouTube Video ID:''"

text \<open>Line 11: \<open>f"https://www.youtube.com/embed/{video_id}?rel=0"\<close>.\<close>

definition embed_url :: "string \<Rightarrow> string" where
  "embed_url video_id = ''https://www.youtube.com/embed/'' @ video_id @ ''?rel=0''"

text \<open>
  Lines 14 to 20: the triple-quoted f-string, with its line breaks and its indentation of
  eight blanks (four before the closing quotes).
\<close>

definition iframe_html :: "string \<Rightarrow> string" where
  "iframe_html url =
     [nl] @ ''        <iframe width='' @ [dq] @ ''700'' @ [dq] @ '' height='' @ [dq] @ ''400'' @ [dq] @
     [nl] @ ''        src='' @ [dq] @ url @ [dq] @
     [nl] @ ''        frameborder='' @ [dq] @ ''0'' @ [dq] @
     [nl] @ ''        allowfullscreen>'' @
     [nl] @ ''        </iframe>'' @
     [nl] @ ''    ''"

text \<open>The script, top to bottom. \<open>if video_id:\<close> is true of a \<open>str\<close> that is not empty.\<close>

definition app :: "page \<Rightarrow> page" where
  "app p0 =
     (let p1 = subheader subheader_text p0;
          (video_id, p2) = text_input ''Video Link ID'' ''linkid'' p1
      in if video_id \<noteq> []
         then (let url = embed_url video_id
               in html (iframe_html url) 400 p2)
         else p2)"

text \<open>
  A render cycle: Streamlit runs the script again from the top on every interaction, on a
  cleared surface, with the session as the UI layer holds it.
\<close>

definition rerun :: "page \<Rightarrow> page" where
  "rerun p = app (p\<lparr>surface := []\<rparr>)"

section \<open>Reading a fragment\<close>

text \<open>
  To say what a fragment specifies, it is read the way its text is written. \<open>after pat t\<close>
  is what follows the first occurrence of \<open>pat\<close> in \<open>t\<close>; \<open>quoted_attr n t\<close> is the value
  of the first \<open>n="..."\<close> in \<open>t\<close>: what stands between that opening quote and the next
  double quote.
\<close>

fun after :: "string \<Rightarrow> string \<Rightarrow> string option" where
  "after pat [] = (if pat = [] then Some [] else None)"
| "after pat (c # cs) =
     (if prefix pat (c # cs) then Some (drop (length pat) (c # cs)) else after pat cs)"

definition quoted_attr :: "string \<Rightarrow> string \<Rightarrow> string option" where
  "quoted_attr name t = map_option (takeWhile (\<lambda>c. c \<noteq> dq)) (after (name @ ''='' @ [dq]) t)"

text \<open>
  A fragment is also read as markup, the way HTML's tokenizer reads tags: \<open>read_tags\<close>
  walks the text once, state by state, and yields the tags in order, a start tag as its
  name with its attributes (\<open>None\<close> for an attribute written without a value) and an end
  tag as \<open>/\<close> and its name. It reads well-formed text only and gives \<open>None\<close> for anything
  else, so that where it answers there is one way to read the text:
  \<^item> names are made of lower-case letters, digits and hyphens, and a tag's name starts
    with a letter; attributes are separated by blanks and their values stand in double
    quotes right after \<open>=\<close>;
  \<^item> an ampersand starts a character reference, which a parser decodes; NUL is replaced
    and a carriage return is normalised before tokenizing: text with any of them is not
    read;
  \<^item> comments, declarations, self-closing tags, attributes on end tags, a repeated
    attribute name and a tag the text ends in are not read;
  \<^item> what stands between \<open><iframe ...>\<close> and \<open></iframe>\<close> is raw text to a parser that
    builds the document, and is tokenized by one that does not: the reader wants no
    \<open><\<close> there but that of \<open></iframe>\<close>; the start tags of the other elements with
    raw or escapable text are not read.
\<close>

type_synonym attr = "string \<times> string option"

type_synonym tag = "string \<times> attr list"

text \<open>The tokenizer's blanks (tab, line feed, form feed, space) and the characters of names.\<close>

definition html_space :: "char \<Rightarrow> bool" where
  "html_space c = (c = CHR 0x09 \<or> c = nl \<or> c = CHR 0x0C \<or> c = CHR '' '')"

definition letter :: "char \<Rightarrow> bool" where
  "letter c = (c \<in> set ''abcdefghijklmnopqrstuvwxyz'')"

definition name_char :: "char \<Rightarrow> bool" where
  "name_char c = (c \<in> set ''abcdefghijklmnopqrstuvwxyz0123456789-'')"

text \<open>Ampersand, NUL and carriage return: text holding one of them is not read.\<close>

definition unread :: "char \<Rightarrow> bool" where
  "unread c = (c = CHR ''&'' \<or> c = CHR 0x00 \<or> c = CHR 0x0D)"

definition raw_text_elements :: "string list" where
  "raw_text_elements =
     [''script'', ''style'', ''textarea'', ''title'', ''xmp'', ''noembed'', ''noframes'',
      ''noscript'', ''plaintext'']"

text \<open>
  The states carry what has been read of the current tag: its name, its attributes so far,
  the name of the current attribute and its value so far. The flag of \<open>Data\<close> and of the
  states of an end tag says whether the text is inside an \<open>iframe\<close> element.
\<close>

datatype state =
    Data bool
  | Tag_open bool
  | End_open bool
  | Start_name string
  | End_name bool string
  | End_tail bool string
  | Before_attr string "attr list"
  | Attr_name string "attr list" string
  | Before_value string "attr list" string
  | Value string "attr list" string string
  | After_value string "attr list"

definition start_tag :: "string \<Rightarrow> attr list \<Rightarrow> tag list option \<Rightarrow> tag list option" where
  "start_tag n as rest =
     (if distinct (map fst as) \<and> n \<notin> set raw_text_elements
      then map_option ((#) (n, as)) rest else None)"

definition end_tag :: "bool \<Rightarrow> string \<Rightarrow> tag list option \<Rightarrow> tag list option" where
  "end_tag raw n rest =
     (if raw \<and> n \<noteq> ''iframe'' then None else map_option ((#) (CHR ''/'' # n, [])) rest)"

fun read_tags :: "state \<Rightarrow> string \<Rightarrow> tag list option" where
  "read_tags (Data raw) [] = Some []"
| "read_tags (Data raw) (c # cs) =
     (if c = CHR ''<'' then read_tags (Tag_open raw) cs
      else if unread c then None
      else read_tags (Data raw) cs)"
| "read_tags (Tag_open raw) (c # cs) =
     (if c = CHR ''/'' then read_tags (End_open raw) cs
      else if letter c \<and> \<not> raw then read_tags (Start_name [c]) cs
      else None)"
| "read_tags (End_open raw) (c # cs) =
     (if letter c then read_tags (End_name raw [c]) cs else None)"
| "read_tags (Start_name n) (c # cs) =
     (if name_char c then read_tags (Start_name (n @ [c])) cs
      else if html_space c then read_tags (Before_attr n []) cs
      else if c = CHR ''>'' then start_tag n [] (read_tags (Data (n = ''iframe'')) cs)
      else None)"
| "read_tags (End_name raw n) (c # cs) =
     (if name_char c then read_tags (End_name raw (n @ [c])) cs
      else if html_space c then read_tags (End_tail raw n) cs
      else if c = CHR ''>'' then end_tag raw n (read_tags (Data False) cs)
      else None)"
| "read_tags (End_tail raw n) (c # cs) =
     (if html_space c then read_tags (End_tail raw n) cs
      else if c = CHR ''>'' then end_tag raw n (read_tags (Data False) cs)
      else None)"
| "read_tags (Before_attr n as) (c # cs) =
     (if html_space c then read_tags (Before_attr n as) cs
      else if c = CHR ''>'' then start_tag n as (read_tags (Data (n = ''iframe'')) cs)
      else if name_char c then read_tags (Attr_name n as [c]) cs
      else None)"
| "read_tags (Attr_name n as a) (c # cs) =
     (if name_char c then read_tags (Attr_name n as (a @ [c])) cs
      else if c = CHR ''='' then read_tags (Before_value n as a) cs
      else if html_space c then read_tags (Before_attr n (as @ [(a, None)])) cs
      else if c = CHR ''>''
      then start_tag n (as @ [(a, None)]) (read_tags (Data (n = ''iframe'')) cs)
      else None)"
| "read_tags (Before_value n as a) (c # cs) =
     (if c = dq then read_tags (Value n as a []) cs else None)"
| "read_tags (Value n as a v) (c # cs) =
     (if c = dq then read_tags (After_value n (as @ [(a, Some v)])) cs
      else if unread c then None
      else read_tags (Value n as a (v @ [c])) cs)"
| "read_tags (After_value n as) (c # cs) =
     (if html_space c then read_tags (Before_attr n as) cs
      else if c = CHR ''>'' then start_tag n as (read_tags (Data (n = ''iframe'')) cs)
      else None)"
| "read_tags st [] = None"

definition tags :: "string \<Rightarrow> tag list option" where
  "tags t = read_tags (Data False) t"

text \<open>
  The code points Python counts as whitespace (\<open>str.isspace\<close>, and what \<open>str.strip\<close>
  removes), each as the bytes of its UTF-8 encoding: U+0009 to U+000D, U+001C to U+0020,
  U+0085, U+00A0, U+1680, U+2000 to U+200A, U+2028, U+2029, U+202F, U+205F and U+3000.
  An identifier of whitespace only is a concatenation of such encodings.
\<close>

definition blanks :: "string list" where
  "blanks =
     [[CHR 0x09], [nl], [CHR 0x0B], [CHR 0x0C], [CHR 0x0D],
      [CHR 0x1C], [CHR 0x1D], [CHR 0x1E], [CHR 0x1F], [CHR 0x20],
      [CHR 0xC2, CHR 0x85], [CHR 0xC2, CHR 0xA0], [CHR 0xE1, CHR 0x9A, CHR 0x80],
      [CHR 0xE2, CHR 0x80, CHR 0x80], [CHR 0xE2, CHR 0x80, CHR 0x81],
      [CHR 0xE2, CHR 0x80, CHR 0x82], [CHR 0xE2, CHR 0x80, CHR 0x83],
      [CHR 0xE2, CHR 0x80, CHR 0x84], [CHR 0xE2, CHR 0x80, CHR 0x85],
      [CHR 0xE2, CHR 0x80, CHR 0x86], [CHR 0xE2, CHR 0x80, CHR 0x87],
      [CHR 0xE2, CHR 0x80, CHR 0x88], [CHR 0xE2, CHR 0x80, CHR 0x89],
      [CHR 0xE2, CHR 0x80, CHR 0x8A], [CHR 0xE2, CHR 0x80, CHR 0xA8],
      [CHR 0xE2, CHR 0x80, CHR 0xA9], [CHR 0xE2, CHR 0x80, CHR 0xAF],
      [CHR 0xE2, CHR 0x81, CHR 0x9F], [CHR 0xE3, CHR 0x80, CHR 0x80]]"

section \<open>What a run writes\<close>

lemma field_value_surface [simp]: "field_value (p\<lparr>surface := es\<rparr>) key = field_value p key"
  by (simp add: field_value_def)

lemma field_value_registered [simp]:
  "field_value (p\<lparr>session := (session p)(key \<mapsto> v)\<rparr>) key = v"
  by (simp add: field_value_def)

lemma app_empty:
  assumes "field_value p ''linkid'' = []"
  shows "app p = p\<lparr>session := (session p)(''linkid'' \<mapsto> []),
                   surface := surface p @ [Subheader subheader_text, Text_input ''Video Link ID'' ''linkid'']\<rparr>"
  using assms by (simp add: app_def subheader_def text_input_def)

lemma app_nonempty:
  assumes "field_value p ''linkid'' \<noteq> []"
  shows "app p = p\<lparr>session := (session p)(''linkid'' \<mapsto> field_value p ''linkid''),
                   surface := surface p @
     [Subheader subheader_text, Text_input ''Video Link ID'' ''linkid'',
      Html (iframe_html (embed_url (field_value p ''linkid''))) 400]\<rparr>"
  using assms by (simp add: app_def subheader_def text_input_def html_def)

lemma rerun_empty:
  assumes "field_value p ''linkid'' = []"
  shows "surface (rerun p) = [Subheader subheader_text, Text_input ''Video Link ID'' ''linkid'']"
  using assms by (simp add: rerun_def app_empty)

lemma rerun_nonempty:
  assumes "field_value p ''linkid'' \<noteq> []"
  shows "surface (rerun p) =
     [Subheader subheader_text, Text_input ''Video Link ID'' ''linkid'',
      Html (iframe_html (embed_url (field_value p ''linkid''))) 400]"
  using assms by (simp add: rerun_def app_nonempty)

lemma rerun_rerun: "rerun (rerun p) = rerun p"
  by (cases "field_value p ''linkid'' = []") (simp_all add: rerun_def app_empty app_nonempty)

lemma app_surface:
  "surface (app p) =
     surface p @ [Subheader subheader_text, Text_input ''Video Link ID'' ''linkid''] @
     (if field_value p ''linkid'' = [] then []
      else [Html (iframe_html (embed_url (field_value p ''linkid''))) 400])"
  by (simp add: app_empty app_nonempty)

lemma rerun_take2:
  "take 2 (surface (rerun p)) = [Subheader subheader_text, Text_input ''Video Link ID'' ''linkid'']"
  by (cases "field_value p ''linkid'' = []") (simp_all add: rerun_empty rerun_nonempty)

lemma fragment_text:
  "iframe_html (embed_url s) =
     [nl] @ ''        <iframe width='' @ [dq] @ ''700'' @ [dq] @ '' height='' @ [dq] @ ''400'' @ [dq] @
     [nl] @ ''        src='' @ [dq] @ ''https://www.youtube.com/embed/'' @ s @ ''?rel=0'' @ [dq] @
     [nl] @ ''        frameborder='' @ [dq] @ ''0'' @ [dq] @
     [nl] @ ''        allowfullscreen>'' @
     [nl] @ ''        </iframe>'' @
     [nl] @ ''    ''"
  by (simp add: iframe_html_def embed_url_def)

section \<open>What a fragment reads as\<close>

lemma after_src:
  "after (''src='' @ [dq]) (iframe_html u) =
     Some (u @ [dq] @ [nl] @ ''        frameborder='' @ [dq] @ ''0'' @ [dq] @
           [nl] @ ''        allowfullscreen>'' @ [nl] @ ''        </iframe>'' @ [nl] @ ''    '')"
  by (simp add: iframe_html_def)

lemma quoted_width: "quoted_attr ''width'' (iframe_html u) = Some ''700''"
  by (simp add: quoted_attr_def iframe_html_def)

lemma quoted_height: "quoted_attr ''height'' (iframe_html u) = Some ''400''"
  by (simp add: quoted_attr_def iframe_html_def)

lemma takeWhile_upto:
  "takeWhile (\<lambda>c. c \<noteq> d) (u @ d # r) = takeWhile (\<lambda>c. c \<noteq> d) u"
  by (induction u) simp_all

lemma quoted_src: "quoted_attr ''src'' (iframe_html u) = Some (takeWhile (\<lambda>c. c \<noteq> dq) u)"
  using after_src [of u] by (simp add: quoted_attr_def takeWhile_upto)

lemma read_value:
  assumes "dq \<notin> set u" and "\<forall>c\<in>set u. \<not> unread c"
  shows "read_tags (Value n as a v) (u @ dq # r) =
         read_tags (After_value n (as @ [(a, Some (v @ u))])) r"
  using assms by (induction u arbitrary: v) auto

lemma tags_iframe_html:
  assumes "dq \<notin> set u" and "\<forall>c\<in>set u. \<not> unread c"
  shows "tags (iframe_html u) =
    Some [(''iframe'', [(''width'', Some ''700''), (''height'', Some ''400''), (''src'', Some u),
                        (''frameborder'', Some ''0''), (''allowfullscreen'', None)]),
          (''/iframe'', [])]"
proof -
  have "read_tags (Value ''iframe'' [(''width'', Some ''700''), (''height'', Some ''400'')] ''src'' [])
          (u @ dq # r) =
        read_tags (After_value ''iframe''
          [(''width'', Some ''700''), (''height'', Some ''400''), (''src'', Some u)]) r" for r
    using read_value [OF assms, of "''iframe''" "[(''width'', Some ''700''), (''height'', Some ''400'')]"
        "''src''" "[]" r]
    by simp
  then show ?thesis
    by (simp add: tags_def iframe_html_def letter_def name_char_def html_space_def unread_def
          start_tag_def end_tag_def raw_text_elements_def)
qed


lemma takeWhile_embed_url:
  "dq \<in> set s \<Longrightarrow>
   takeWhile (\<lambda>c. c \<noteq> dq) (embed_url s) = ''https://www.youtube.com/embed/'' @ takeWhile (\<lambda>c. c \<noteq> dq) s"
  by (simp add: embed_url_def takeWhile_append1)

lemma quoted_src_clean:
  "dq \<notin> set u \<Longrightarrow> quoted_attr ''src'' (iframe_html u) = Some u"
  by (auto simp add: quoted_src)


lemma blank_nonempty: "w \<in> set blanks \<Longrightarrow> w \<noteq> []"
  by (auto simp add: blanks_def)

lemma blank_no_dq: "w \<in> set blanks \<Longrightarrow> dq \<notin> set w"
  by (auto simp add: blanks_def)

lemma blanks_concat:
  assumes "ws \<noteq> []" and "set ws \<subseteq> set blanks"
  shows "concat ws \<noteq> [] \<and> dq \<notin> set (concat ws)"
proof -
  from assms(1) obtain w ws' where ws: "ws = w # ws'"
    by (cases ws) auto
  with assms(2) have "w \<noteq> []"
    by (simp add: blank_nonempty)
  with ws have "concat ws \<noteq> []" by simp
  moreover from assms(2) have "dq \<notin> set (concat ws)"
    using blank_no_dq by auto
  ultimately show ?thesis by simp
qed

section \<open>The claims\<close>

text \<open>
  In what follows the identifier of a run on page \<open>p\<close> is \<open>field_value p ''linkid''\<close>,
  the value \<open>st.text_input\<close> hands to \<open>video_id\<close>, and what a render cycle produces is
  \<open>surface (rerun p)\<close>.
\<close>

subsection \<open>C1: the embed URL\<close>

text \<open>
  C1. For every identifier \<open>s\<close> that is not empty, the embed URL the script constructs is
  the prefix \<open>https://www.youtube.com/embed/\<close>, then \<open>s\<close>, then the suffix \<open>?rel=0\<close>,
  and that URL is the one the fragment of the render cycle is formatted with.
\<close>

theorem embed_url_concat:
  assumes "field_value p ''linkid'' = s" and "s \<noteq> []"
  shows "embed_url s = ''https://www.youtube.com/embed/'' @ s @ ''?rel=0'' \<and>
         surface (rerun p) =
           [Subheader subheader_text, Text_input ''Video Link ID'' ''linkid'',
            Html (iframe_html (''https://www.youtube.com/embed/'' @ s @ ''?rel=0'')) 400]"
  using assms rerun_nonempty [of p] by (simp add: embed_url_def)

theorem embed_url_concat_witness:
  "field_value \<lparr>session = [''linkid'' \<mapsto> ''abc''], surface = []\<rparr> ''linkid'' = ''abc'' \<and>
   ''abc'' \<noteq> [] \<and>
   embed_url ''abc'' = ''https://www.youtube.com/embed/abc?rel=0'' \<and>
   surface (rerun \<lparr>session = [''linkid'' \<mapsto> ''abc''], surface = []\<rparr>) =
     [Subheader subheader_text, Text_input ''Video Link ID'' ''linkid'',
      Html (iframe_html ''https://www.youtube.com/embed/abc?rel=0'') 400]"
  using embed_url_concat [of "\<lparr>session = [''linkid'' \<mapsto> ''abc''], surface = []\<rparr>" "''abc''"]
  by (simp add: field_value_def)

subsection \<open>C2: the empty identifier\<close>

text \<open>
  C2. When the identifier is empty, a render cycle writes the prompt and the input
  control and nothing else: no \<open>Html\<close> element, hence no iframe, is on the surface.
\<close>

theorem empty_identifier_no_fragment:
  assumes "field_value p ''linkid'' = []"
  shows "surface (rerun p) = [Subheader subheader_text, Text_input ''Video Link ID'' ''linkid''] \<and>
         (\<forall>h n. Html h n \<notin> set (surface (rerun p)))"
  using assms by (simp add: rerun_empty)

theorem empty_identifier_no_fragment_witness:
  "field_value \<lparr>session = [''linkid'' \<mapsto> ''''], surface = []\<rparr> ''linkid'' = [] \<and>
   surface (rerun \<lparr>session = [''linkid'' \<mapsto> ''''], surface = []\<rparr>) =
     [Subheader subheader_text, Text_input ''Video Link ID'' ''linkid''] \<and>
   (\<forall>h n. Html h n \<notin> set (surface (rerun \<lparr>session = [''linkid'' \<mapsto> ''''], surface = []\<rparr>)))"
  using empty_identifier_no_fragment [of "\<lparr>session = [''linkid'' \<mapsto> ''''], surface = []\<rparr>"]
  by (simp add: field_value_def)

subsection \<open>C3: width and height\<close>

text \<open>
  C3. Every fragment a render cycle produces, whatever the identifier, opens with
  \<open><iframe width="700" height="400"\<close> (after the line break and the indentation of
  the template), and its \<open>width\<close> reads 700 and its \<open>height\<close> reads 400: the identifier
  has no part in either value.
\<close>

theorem fragment_width_height:
  assumes "Html h n \<in> set (surface (rerun p))"
  shows "prefix ([nl] @ ''        <iframe width='' @ [dq] @ ''700'' @ [dq] @ '' height='' @ [dq] @ ''400'' @ [dq]) h \<and>
         quoted_attr ''width'' h = Some ''700'' \<and> quoted_attr ''height'' h = Some ''400''"
proof (cases "field_value p ''linkid'' = []")
  case True
  with assms show ?thesis by (simp add: rerun_empty)
next
  case False
  with assms have h: "h = iframe_html (embed_url (field_value p ''linkid''))"
    by (simp add: rerun_nonempty)
  have "prefix ([nl] @ ''        <iframe width='' @ [dq] @ ''700'' @ [dq] @ '' height='' @ [dq] @ ''400'' @ [dq])
          (iframe_html u)" for u
    by (simp add: iframe_html_def)
  with h show ?thesis by (simp only: quoted_width quoted_height simp_thms)
qed

theorem fragment_width_height_witness:
  "Html (iframe_html (embed_url ''x y'')) 400 \<in>
     set (surface (rerun \<lparr>session = [''linkid'' \<mapsto> ''x y''], surface = []\<rparr>)) \<and>
   prefix ([nl] @ ''        <iframe width='' @ [dq] @ ''700'' @ [dq] @ '' height='' @ [dq] @ ''400'' @ [dq])
     (iframe_html (embed_url ''x y'')) \<and>
   quoted_attr ''width'' (iframe_html (embed_url ''x y'')) = Some ''700'' \<and>
   quoted_attr ''height'' (iframe_html (embed_url ''x y'')) = Some ''400''"
proof -
  have m: "Html (iframe_html (embed_url ''x y'')) 400 \<in>
     set (surface (rerun \<lparr>session = [''linkid'' \<mapsto> ''x y''], surface = []\<rparr>))"
    by (simp add: rerun_nonempty field_value_def)
  show ?thesis
    using m fragment_width_height [OF m] by (simp only: simp_thms)
qed

subsection \<open>C4: render cycles are deterministic and idempotent\<close>

text \<open>
  C4. Two render cycles given the same identifier produce the same surface, byte for
  byte, whatever else differs between the two pages (other session entries, what the
  surface held before); and running a cycle on the result of a cycle changes nothing.
\<close>

theorem rerun_same_identifier:
  assumes "field_value p ''linkid'' = field_value q ''linkid''"
  shows "surface (rerun p) = surface (rerun q) \<and> rerun (rerun p) = rerun p"
proof -
  have "surface (rerun p) = surface (rerun q)"
    using assms rerun_empty [of p] rerun_empty [of q] rerun_nonempty [of p] rerun_nonempty [of q]
    by (cases "field_value p ''linkid'' = []") simp_all
  moreover have "rerun (rerun p) = rerun p"
    by (rule rerun_rerun)
  ultimately show ?thesis by simp
qed

theorem rerun_same_identifier_witness:
  "field_value \<lparr>session = [''linkid'' \<mapsto> ''abc''], surface = []\<rparr> ''linkid'' =
   field_value \<lparr>session = [''linkid'' \<mapsto> ''abc'', ''other'' \<mapsto> ''z''], surface = [Subheader ''old'']\<rparr> ''linkid'' \<and>
   surface (rerun \<lparr>session = [''linkid'' \<mapsto> ''abc''], surface = []\<rparr>) =
   surface (rerun \<lparr>session = [''linkid'' \<mapsto> ''abc'', ''other'' \<mapsto> ''z''], surface = [Subheader ''old'']\<rparr>) \<and>
   rerun (rerun \<lparr>session = [''linkid'' \<mapsto> ''abc''], surface = []\<rparr>) =
   rerun \<lparr>session = [''linkid'' \<mapsto> ''abc''], surface = []\<rparr>"
proof -
  have e: "field_value \<lparr>session = [''linkid'' \<mapsto> ''abc''], surface = []\<rparr> ''linkid'' =
   field_value \<lparr>session = [''linkid'' \<mapsto> ''abc'', ''other'' \<mapsto> ''z''], surface = [Subheader ''old'']\<rparr> ''linkid''"
    by (simp add: field_value_def)
  show ?thesis
    using e rerun_same_identifier [OF e] by (simp only: simp_thms)
qed

subsection \<open>C5: the iframe and its attributes\<close>




subsection \<open>C6: the example of the specification\<close>

text \<open>
  C6. For the identifier \<open>dQw4w9WgXcQ\<close> the fragment is the template with
  \<open>src="https://www.youtube.com/embed/dQw4w9WgXcQ?rel=0"\<close>; its \<open>src\<close> reads
  \<open>https://www.youtube.com/embed/dQw4w9WgXcQ?rel=0\<close>, as text and as markup.
\<close>

theorem example_src:
  assumes "field_value p ''linkid'' = ''dQw4w9WgXcQ''"
  shows "surface (rerun p) =
           [Subheader subheader_text, Text_input ''Video Link ID'' ''linkid'',
            Html ([nl] @ ''        <iframe width='' @ [dq] @ ''700'' @ [dq] @ '' height='' @ [dq] @ ''400'' @ [dq] @
                  [nl] @ ''        src='' @ [dq] @ ''https://www.youtube.com/embed/dQw4w9WgXcQ?rel=0'' @ [dq] @
                  [nl] @ ''        frameborder='' @ [dq] @ ''0'' @ [dq] @
                  [nl] @ ''        allowfullscreen>'' @
                  [nl] @ ''        </iframe>'' @
                  [nl] @ ''    '') 400] \<and>
         quoted_attr ''src'' (iframe_html (embed_url ''dQw4w9WgXcQ'')) =
           Some ''https://www.youtube.com/embed/dQw4w9WgXcQ?rel=0'' \<and>
         tags (iframe_html (embed_url ''dQw4w9WgXcQ'')) =
           Some [(''iframe'', [(''width'', Some ''700''), (''height'', Some ''400''),
                               (''src'', Some ''https://www.youtube.com/embed/dQw4w9WgXcQ?rel=0''),
                               (''frameborder'', Some ''0''), (''allowfullscreen'', None)]),
                 (''/iframe'', [])]"
proof -
  have e: "embed_url ''dQw4w9WgXcQ'' = ''https://www.youtube.com/embed/dQw4w9WgXcQ?rel=0''"
    by (simp add: embed_url_def)
  have u: "dq \<notin> set ''https://www.youtube.com/embed/dQw4w9WgXcQ?rel=0''"
    by simp
  have r: "\<forall>c\<in>set ''https://www.youtube.com/embed/dQw4w9WgXcQ?rel=0''. \<not> unread c"
    by (simp add: unread_def)
  have "surface (rerun p) =
           [Subheader subheader_text, Text_input ''Video Link ID'' ''linkid'',
            Html (iframe_html ''https://www.youtube.com/embed/dQw4w9WgXcQ?rel=0'') 400]"
    using assms rerun_nonempty [of p] by (simp add: e)
  then have 1: "surface (rerun p) =
           [Subheader subheader_text, Text_input ''Video Link ID'' ''linkid'',
            Html ([nl] @ ''        <iframe width='' @ [dq] @ ''700'' @ [dq] @ '' height='' @ [dq] @ ''400'' @ [dq] @
                  [nl] @ ''        src='' @ [dq] @ ''https://www.youtube.com/embed/dQw4w9WgXcQ?rel=0'' @ [dq] @
                  [nl] @ ''        frameborder='' @ [dq] @ ''0'' @ [dq] @
                  [nl] @ ''        allowfullscreen>'' @
                  [nl] @ ''        </iframe>'' @
                  [nl] @ ''    '') 400]"
    by (simp add: iframe_html_def)
  from 1 quoted_src_clean [OF u] tags_iframe_html [OF u r] show ?thesis
    unfolding e by (simp only: simp_thms)
qed

theorem example_src_witness:
  "field_value \<lparr>session = [''linkid'' \<mapsto> ''dQw4w9WgXcQ''], surface = []\<rparr> ''linkid'' = ''dQw4w9WgXcQ'' \<and>
   (\<exists>f. surface (rerun \<lparr>session = [''linkid'' \<mapsto> ''dQw4w9WgXcQ''], surface = []\<rparr>) =
           [Subheader subheader_text, Text_input ''Video Link ID'' ''linkid'', Html f 400]) \<and>
   quoted_attr ''src'' (iframe_html (embed_url ''dQw4w9WgXcQ'')) =
     Some ''https://www.youtube.com/embed/dQw4w9WgXcQ?rel=0''"
proof -
  have a: "field_value \<lparr>session = [''linkid'' \<mapsto> ''dQw4w9WgXcQ''], surface = []\<rparr> ''linkid'' = ''dQw4w9WgXcQ''"
    by (simp add: field_value_def)
  show ?thesis
    using a example_src [OF a] by (simp only: simp_thms) blast
qed

subsection \<open>C7: no validation, no error\<close>

text \<open>
  The script has no \<open>raise\<close>, no \<open>try\<close>, no \<open>st.error\<close> and no \<open>st.stop\<close>: a run is
  the total function \<open>app\<close>, and the only thing it decides is whether \<open>video_id\<close> is
  empty.

  C7. For every identifier that is not empty, whatever it holds, a render cycle writes the
  prompt, the input and the fragment: the text of the template with the identifier between
  \<open>https://www.youtube.com/embed/\<close> and \<open>?rel=0\<close>, in a container of height 400. A
  fragment is on the surface exactly when the identifier is not empty.
\<close>

theorem no_validation:
  "(field_value p ''linkid'' \<noteq> [] \<longrightarrow>
      surface (rerun p) =
        [Subheader subheader_text, Text_input ''Video Link ID'' ''linkid'',
         Html ([nl] @ ''        <iframe width='' @ [dq] @ ''700'' @ [dq] @ '' height='' @ [dq] @ ''400'' @ [dq] @
               [nl] @ ''        src='' @ [dq] @
                      ''https://www.youtube.com/embed/'' @ field_value p ''linkid'' @ ''?rel=0'' @ [dq] @
               [nl] @ ''        frameborder='' @ [dq] @ ''0'' @ [dq] @
               [nl] @ ''        allowfullscreen>'' @
               [nl] @ ''        </iframe>'' @
               [nl] @ ''    '') 400]) \<and>
   ((\<exists>h n. Html h n \<in> set (surface (rerun p))) = (field_value p ''linkid'' \<noteq> []))"
proof (cases "field_value p ''linkid'' = []")
  case True
  then show ?thesis by (simp add: rerun_empty)
next
  case False
  then have w: "surface (rerun p) =
     [Subheader subheader_text, Text_input ''Video Link ID'' ''linkid'',
      Html (iframe_html (embed_url (field_value p ''linkid''))) 400]"
    by (rule rerun_nonempty)
  then have "Html (iframe_html (embed_url (field_value p ''linkid''))) 400 \<in> set (surface (rerun p))"
    by simp
  then have "\<exists>h n. Html h n \<in> set (surface (rerun p))"
    by blast
  with False have B: "(\<exists>h n. Html h n \<in> set (surface (rerun p))) = (field_value p ''linkid'' \<noteq> [])"
    by simp
  from w have "surface (rerun p) =
        [Subheader subheader_text, Text_input ''Video Link ID'' ''linkid'',
         Html ([nl] @ ''        <iframe width='' @ [dq] @ ''700'' @ [dq] @ '' height='' @ [dq] @ ''400'' @ [dq] @
               [nl] @ ''        src='' @ [dq] @
                      ''https://www.youtube.com/embed/'' @ field_value p ''linkid'' @ ''?rel=0'' @ [dq] @
               [nl] @ ''        frameborder='' @ [dq] @ ''0'' @ [dq] @
               [nl] @ ''        allowfullscreen>'' @
               [nl] @ ''        </iframe>'' @
               [nl] @ ''    '') 400]"
    by (simp only: fragment_text)
  then have A: "field_value p ''linkid'' \<noteq> [] \<longrightarrow>
      surface (rerun p) =
        [Subheader subheader_text, Text_input ''Video Link ID'' ''linkid'',
         Html ([nl] @ ''        <iframe width='' @ [dq] @ ''700'' @ [dq] @ '' height='' @ [dq] @ ''400'' @ [dq] @
               [nl] @ ''        src='' @ [dq] @
                      ''https://www.youtube.com/embed/'' @ field_value p ''linkid'' @ ''?rel=0'' @ [dq] @
               [nl] @ ''        frameborder='' @ [dq] @ ''0'' @ [dq] @
               [nl] @ ''        allowfullscreen>'' @
               [nl] @ ''        </iframe>'' @
               [nl] @ ''    '') 400]"
    by (rule impI)
  from A B show ?thesis by (rule conjI)
qed

theorem no_validation_witness:
  "field_value \<lparr>session = [''linkid'' \<mapsto> ''<not a video id>''], surface = []\<rparr> ''linkid'' =
     ''<not a video id>'' \<and>
   field_value \<lparr>session = [''linkid'' \<mapsto> ''<not a video id>''], surface = []\<rparr> ''linkid'' \<noteq> [] \<and>
   surface (rerun \<lparr>session = [''linkid'' \<mapsto> ''<not a video id>''], surface = []\<rparr>) =
     [Subheader subheader_text, Text_input ''Video Link ID'' ''linkid'',
      Html ([nl] @ ''        <iframe width='' @ [dq] @ ''700'' @ [dq] @ '' height='' @ [dq] @ ''400'' @ [dq] @
            [nl] @ ''        src='' @ [dq] @
                   ''https://www.youtube.com/embed/<not a video id>?rel=0'' @ [dq] @
            [nl] @ ''        frameborder='' @ [dq] @ ''0'' @ [dq] @
            [nl] @ ''        allowfullscreen>'' @
            [nl] @ ''        </iframe>'' @
            [nl] @ ''    '') 400] \<and>
   (\<exists>h n. Html h n \<in> set (surface (rerun \<lparr>session = [''linkid'' \<mapsto> ''<not a video id>''], surface = []\<rparr>)))"
  using no_validation [of "\<lparr>session = [''linkid'' \<mapsto> ''<not a video id>''], surface = []\<rparr>"]
  by (simp add: field_value_def)

subsection \<open>C8: what is written in every run\<close>

text \<open>
  C8. A run appends to the surface, in this order, the prompt, the input control and, only
  when the identifier is not empty, the fragment, and keeps what the surface held. The
  first two elements of a render cycle are the same prompt and the same input control for
  any two pages, empty identifier or not, and a third element is there exactly when the
  identifier is not empty.
\<close>

theorem prompt_and_input_always:
  "surface (app p) =
     surface p @
     [Subheader ([CHR 0xF0, CHR 0x9F, CHR 0x8E, CHR 0xA5] @ '' Enter YouTube Video ID:''),
      Text_input ''Video Link ID'' ''linkid''] @
     (if field_value p ''linkid'' = [] then []
      else [Html (iframe_html (embed_url (field_value p ''linkid''))) 400]) \<and>
   take 2 (surface (rerun p)) =
     [Subheader ([CHR 0xF0, CHR 0x9F, CHR 0x8E, CHR 0xA5] @ '' Enter YouTube Video ID:''),
      Text_input ''Video Link ID'' ''linkid''] \<and>
   take 2 (surface (rerun p)) = take 2 (surface (rerun q)) \<and>
   ((drop 2 (surface (rerun p)) = []) = (field_value p ''linkid'' = []))"
proof -
  have "(drop 2 (surface (rerun p)) = []) = (field_value p ''linkid'' = [])"
    by (cases "field_value p ''linkid'' = []") (simp_all add: rerun_empty rerun_nonempty)
  then show ?thesis
    by (simp only: app_surface rerun_take2 subheader_text_def simp_thms)
qed

theorem prompt_and_input_always_witness:
  "surface (app \<lparr>session = Map.empty, surface = [Subheader ''before'']\<rparr>) =
     [Subheader ''before'',
      Subheader ([CHR 0xF0, CHR 0x9F, CHR 0x8E, CHR 0xA5] @ '' Enter YouTube Video ID:''),
      Text_input ''Video Link ID'' ''linkid''] \<and>
   take 2 (surface (rerun \<lparr>session = Map.empty, surface = [Subheader ''before'']\<rparr>)) =
   take 2 (surface (rerun \<lparr>session = [''linkid'' \<mapsto> ''abc''], surface = []\<rparr>)) \<and>
   drop 2 (surface (rerun \<lparr>session = Map.empty, surface = [Subheader ''before'']\<rparr>)) = []"
proof -
  note t = prompt_and_input_always [of "\<lparr>session = Map.empty, surface = [Subheader ''before'']\<rparr>"
      "\<lparr>session = [''linkid'' \<mapsto> ''abc''], surface = []\<rparr>"]
  from t have 1: "surface (app \<lparr>session = Map.empty, surface = [Subheader ''before'']\<rparr>) =
     [Subheader ''before'',
      Subheader ([CHR 0xF0, CHR 0x9F, CHR 0x8E, CHR 0xA5] @ '' Enter YouTube Video ID:''),
      Text_input ''Video Link ID'' ''linkid'']"
    by (simp add: field_value_def)
  from t have 2: "take 2 (surface (rerun \<lparr>session = Map.empty, surface = [Subheader ''before'']\<rparr>)) =
     take 2 (surface (rerun \<lparr>session = [''linkid'' \<mapsto> ''abc''], surface = []\<rparr>))"
    by blast
  from t have 3: "drop 2 (surface (rerun \<lparr>session = Map.empty, surface = [Subheader ''before'']\<rparr>)) = []"
    by (simp add: field_value_def)
  from 1 2 3 show ?thesis by (intro conjI)
qed

subsection \<open>C9: the identifier is interpolated as it is\<close>

text \<open>
  C9. An identifier goes into the embed URL and into the fragment unchanged, with nothing
  escaped or encoded: what follows \<open>src="\<close> in the fragment is the URL with the
  identifier in it as typed. When the identifier holds a double quote, the \<open>src\<close> value
  read up to the next double quote therefore stops inside the identifier, at its first
  quote, and is not the embed URL.
\<close>

theorem quote_verbatim_in_src:
  assumes "field_value p ''linkid'' = s" and "s \<noteq> []"
  shows "embed_url s = ''https://www.youtube.com/embed/'' @ s @ ''?rel=0'' \<and>
         surface (rerun p) =
           [Subheader subheader_text, Text_input ''Video Link ID'' ''linkid'',
            Html (iframe_html (''https://www.youtube.com/embed/'' @ s @ ''?rel=0'')) 400] \<and>
         after (''src='' @ [dq]) (iframe_html (''https://www.youtube.com/embed/'' @ s @ ''?rel=0'')) =
           Some (''https://www.youtube.com/embed/'' @ s @ ''?rel=0'' @ [dq] @
                 [nl] @ ''        frameborder='' @ [dq] @ ''0'' @ [dq] @
                 [nl] @ ''        allowfullscreen>'' @ [nl] @ ''        </iframe>'' @ [nl] @ ''    '') \<and>
         (dq \<in> set s \<longrightarrow>
            quoted_attr ''src'' (iframe_html (embed_url s)) =
              Some (''https://www.youtube.com/embed/'' @ takeWhile (\<lambda>c. c \<noteq> dq) s) \<and>
            quoted_attr ''src'' (iframe_html (embed_url s)) \<noteq> Some (embed_url s))"
proof -
  have 0: "embed_url s = ''https://www.youtube.com/embed/'' @ s @ ''?rel=0''"
    by (simp add: embed_url_def)
  have 1: "surface (rerun p) =
           [Subheader subheader_text, Text_input ''Video Link ID'' ''linkid'',
            Html (iframe_html (''https://www.youtube.com/embed/'' @ s @ ''?rel=0'')) 400]"
    using assms rerun_nonempty [of p] by (simp add: embed_url_def)
  have 2: "after (''src='' @ [dq]) (iframe_html (''https://www.youtube.com/embed/'' @ s @ ''?rel=0'')) =
           Some (''https://www.youtube.com/embed/'' @ s @ ''?rel=0'' @ [dq] @
                 [nl] @ ''        frameborder='' @ [dq] @ ''0'' @ [dq] @
                 [nl] @ ''        allowfullscreen>'' @ [nl] @ ''        </iframe>'' @ [nl] @ ''    '')"
    using after_src [of "''https://www.youtube.com/embed/'' @ s @ ''?rel=0''"] by simp
  have 3: "quoted_attr ''src'' (iframe_html (embed_url s)) =
              Some (''https://www.youtube.com/embed/'' @ takeWhile (\<lambda>c. c \<noteq> dq) s) \<and>
           quoted_attr ''src'' (iframe_html (embed_url s)) \<noteq> Some (embed_url s)"
    if q: "dq \<in> set s"
  proof -
    have r: "quoted_attr ''src'' (iframe_html (embed_url s)) =
           Some (''https://www.youtube.com/embed/'' @ takeWhile (\<lambda>c. c \<noteq> dq) s)"
      using q by (simp only: quoted_src takeWhile_embed_url)
    have "takeWhile (\<lambda>c. c \<noteq> dq) s \<noteq> s @ ''?rel=0''"
    proof
      assume "takeWhile (\<lambda>c. c \<noteq> dq) s = s @ ''?rel=0''"
      then have "length (takeWhile (\<lambda>c. c \<noteq> dq) s) = length s + 6"
        by simp
      with length_takeWhile_le [of "\<lambda>c. c \<noteq> dq" s] show False
        by arith
    qed
    then have "quoted_attr ''src'' (iframe_html (embed_url s)) \<noteq> Some (embed_url s)"
      unfolding r by (simp add: embed_url_def)
    with r show ?thesis by (simp only: simp_thms)
  qed
  from 3 have 4: "dq \<in> set s \<longrightarrow>
            quoted_attr ''src'' (iframe_html (embed_url s)) =
              Some (''https://www.youtube.com/embed/'' @ takeWhile (\<lambda>c. c \<noteq> dq) s) \<and>
            quoted_attr ''src'' (iframe_html (embed_url s)) \<noteq> Some (embed_url s)"
    by blast
  from 0 1 2 4 show ?thesis by (intro conjI)
qed

theorem quote_verbatim_in_src_witness:
  "field_value \<lparr>session = [''linkid'' \<mapsto> ''a'' @ [dq] @ ''b''], surface = []\<rparr> ''linkid'' = ''a'' @ [dq] @ ''b'' \<and>
   ''a'' @ [dq] @ ''b'' \<noteq> [] \<and> dq \<in> set (''a'' @ [dq] @ ''b'') \<and>
   embed_url (''a'' @ [dq] @ ''b'') = ''https://www.youtube.com/embed/a'' @ [dq] @ ''b?rel=0'' \<and>
   surface (rerun \<lparr>session = [''linkid'' \<mapsto> ''a'' @ [dq] @ ''b''], surface = []\<rparr>) =
     [Subheader subheader_text, Text_input ''Video Link ID'' ''linkid'',
      Html (iframe_html (''https://www.youtube.com/embed/a'' @ [dq] @ ''b?rel=0'')) 400] \<and>
   after (''src='' @ [dq]) (iframe_html (''https://www.youtube.com/embed/a'' @ [dq] @ ''b?rel=0'')) =
     Some (''https://www.youtube.com/embed/a'' @ [dq] @ ''b?rel=0'' @ [dq] @
           [nl] @ ''        frameborder='' @ [dq] @ ''0'' @ [dq] @
           [nl] @ ''        allowfullscreen>'' @ [nl] @ ''        </iframe>'' @ [nl] @ ''    '') \<and>
   quoted_attr ''src'' (iframe_html (embed_url (''a'' @ [dq] @ ''b''))) = Some ''https://www.youtube.com/embed/a'' \<and>
   quoted_attr ''src'' (iframe_html (embed_url (''a'' @ [dq] @ ''b''))) \<noteq> Some (embed_url (''a'' @ [dq] @ ''b''))"
proof -
  have a: "field_value \<lparr>session = [''linkid'' \<mapsto> ''a'' @ [dq] @ ''b''], surface = []\<rparr> ''linkid'' = ''a'' @ [dq] @ ''b''"
    by (simp add: field_value_def)
  have b: "''a'' @ [dq] @ ''b'' \<noteq> []" by simp
  show ?thesis
    using a quote_verbatim_in_src [OF a b] by (simp add: embed_url_def)
qed

subsection \<open>C10: no trimming\<close>

text \<open>
  C10. For every identifier that is not empty and consists of whitespace only (so that
  stripping it would leave nothing), a render cycle still writes the fragment, and the
  whitespace stands in the URL of its \<open>src\<close> as it was typed.
\<close>

theorem whitespace_identifier_embedded:
  assumes "ws \<noteq> []" and "set ws \<subseteq> set blanks" and "field_value p ''linkid'' = concat ws"
  shows "concat ws \<noteq> [] \<and>
         surface (rerun p) =
           [Subheader subheader_text, Text_input ''Video Link ID'' ''linkid'',
            Html (iframe_html (''https://www.youtube.com/embed/'' @ concat ws @ ''?rel=0'')) 400] \<and>
         quoted_attr ''src'' (iframe_html (''https://www.youtube.com/embed/'' @ concat ws @ ''?rel=0'')) =
           Some (''https://www.youtube.com/embed/'' @ concat ws @ ''?rel=0'')"
proof -
  from assms(1,2) have ne: "concat ws \<noteq> []" and nq: "dq \<notin> set (concat ws)"
    using blanks_concat by blast+
  from nq have "dq \<notin> set (''https://www.youtube.com/embed/'' @ concat ws @ ''?rel=0'')"
    by simp
  then have "quoted_attr ''src'' (iframe_html (''https://www.youtube.com/embed/'' @ concat ws @ ''?rel=0'')) =
           Some (''https://www.youtube.com/embed/'' @ concat ws @ ''?rel=0'')"
    by (rule quoted_src_clean)
  moreover have "surface (rerun p) =
           [Subheader subheader_text, Text_input ''Video Link ID'' ''linkid'',
            Html (iframe_html (''https://www.youtube.com/embed/'' @ concat ws @ ''?rel=0'')) 400]"
    using assms(3) ne rerun_nonempty [of p] by (simp add: embed_url_def)
  ultimately show ?thesis using ne by (simp only: simp_thms)
qed

theorem whitespace_identifier_embedded_witness:
  "[[CHR 0x20], [CHR 0x09], [CHR 0xC2, CHR 0xA0]] \<noteq> [] \<and>
   set [[CHR 0x20], [CHR 0x09], [CHR 0xC2, CHR 0xA0]] \<subseteq> set blanks \<and>
   field_value \<lparr>session = [''linkid'' \<mapsto> [CHR 0x20, CHR 0x09, CHR 0xC2, CHR 0xA0]], surface = []\<rparr> ''linkid'' =
     concat [[CHR 0x20], [CHR 0x09], [CHR 0xC2, CHR 0xA0]] \<and>
   surface (rerun \<lparr>session = [''linkid'' \<mapsto> [CHR 0x20, CHR 0x09, CHR 0xC2, CHR 0xA0]], surface = []\<rparr>) =
     [Subheader subheader_text, Text_input ''Video Link ID'' ''linkid'',
      Html (iframe_html (''https://www.youtube.com/embed/'' @ [CHR 0x20, CHR 0x09, CHR 0xC2, CHR 0xA0] @ ''?rel=0'')) 400] \<and>
   quoted_attr ''src'' (iframe_html (''https://www.youtube.com/embed/'' @ [CHR 0x20, CHR 0x09, CHR 0xC2, CHR 0xA0] @ ''?rel=0'')) =
     Some (''https://www.youtube.com/embed/'' @ [CHR 0x20, CHR 0x09, CHR 0xC2, CHR 0xA0] @ ''?rel=0'')"
proof -
  have a: "[[CHR 0x20], [CHR 0x09], [CHR 0xC2, CHR 0xA0]] \<noteq> []" by simp
  have b: "set [[CHR 0x20], [CHR 0x09], [CHR 0xC2, CHR 0xA0]] \<subseteq> set blanks"
    by (simp add: blanks_def)
  have c: "field_value \<lparr>session = [''linkid'' \<mapsto> [CHR 0x20, CHR 0x09, CHR 0xC2, CHR 0xA0]], surface = []\<rparr> ''linkid'' =
     concat [[CHR 0x20], [CHR 0x09], [CHR 0xC2, CHR 0xA0]]"
    by (simp add: field_value_def)
  show ?thesis
    using b c whitespace_identifier_embedded [OF a b c] by simp
qed

end
